theory Spec2Isabelle
  imports Main
begin

section \<open>Quality moderation: data model\<close>

text \<open>
  Shallow embedding of \<^verbatim>\<open>backend/app/quality_moderation.py\<close>.

  A naive \<^verbatim>\<open>datetime.datetime\<close> is the number of microseconds elapsed since
  \<^verbatim>\<open>datetime.datetime.min\<close> (0001-01-01 00:00:00): the values are totally ordered,
  \<^verbatim>\<open>datetime.min\<close> is the least one, and the program only compares them.
\<close>

type_synonym datetime = nat

definition datetime_min :: datetime where
  "datetime_min = 0"

text \<open>
  \<^verbatim>\<open>datetime.datetime.now()\<close> is read once per loop iteration and once per tallied item,
  so the clock is a sequence of readings: \<open>clk k\<close> is what the \<open>k\<close>-th call (from 0) of
  \<^verbatim>\<open>now()\<close> returns during one request. The functions below thread the number of
  readings taken so far.
\<close>

type_synonym clock = "nat \<Rightarrow> datetime"

text \<open>The dataclasses \<^verbatim>\<open>Guideline\<close> and \<^verbatim>\<open>GuidelineCategory\<close>.\<close>

record guideline =
  g_id :: string
  g_url :: string
  g_needed_to_pass_since :: datetime
  g_read_only :: bool

record guideline_category =
  c_id :: string
  c_guidelines :: "guideline list"

text \<open>
  The two activation dates of the catalog, \<^verbatim>\<open>datetime.datetime(2023, 9, 1)\<close> and
  \<^verbatim>\<open>datetime.datetime(2023, 9, 30)\<close>: midnight, 738763 and 738792 days after
  0001-01-01, at 86400000000 microseconds a day.
\<close>

definition datetime_2023_09_01 :: datetime where
  "datetime_2023_09_01 = 738763 * 86400000000"

definition datetime_2023_09_30 :: datetime where
  "datetime_2023_09_30 = 738792 * 86400000000"

text \<open>The module constant \<^verbatim>\<open>GUIDELINES\<close> (the entry commented out in the source is left out).\<close>

definition GUIDELINES :: "guideline_category list" where
  "GUIDELINES =
    [\<lparr>c_id = ''general'', c_guidelines =
        [\<lparr>g_id = ''general-no-trademark-violations'',
          g_url = ''https://docs.flathub.org/docs/for-app-authors/appdata-guidelines/quality-guidelines/#no-trademark-violations'',
          g_needed_to_pass_since = datetime_2023_09_01, g_read_only = False\<rparr>]\<rparr>,
     \<lparr>c_id = ''app-icon'', c_guidelines =
        [\<lparr>g_id = ''app-icon-footprint'',
          g_url = ''https://docs.flathub.org/docs/for-app-authors/appdata-guidelines/quality-guidelines/#reasonable-footprint'',
          g_needed_to_pass_since = datetime_2023_09_01, g_read_only = False\<rparr>,
         \<lparr>g_id = ''app-icon-contrast'',
          g_url = ''https://docs.flathub.org/docs/for-app-authors/appdata-guidelines/quality-guidelines/#good-contrast'',
          g_needed_to_pass_since = datetime_2023_09_01, g_read_only = False\<rparr>,
         \<lparr>g_id = ''app-icon-detail'',
          g_url = ''https://docs.flathub.org/docs/for-app-authors/appdata-guidelines/quality-guidelines/#not-too-much-or-too-little-detail'',
          g_needed_to_pass_since = datetime_2023_09_01, g_read_only = False\<rparr>,
         \<lparr>g_id = ''app-icon-no-baked-in-shadows'',
          g_url = ''https://docs.flathub.org/docs/for-app-authors/appdata-guidelines/quality-guidelines/#no-baked-in-shadows'',
          g_needed_to_pass_since = datetime_2023_09_01, g_read_only = False\<rparr>,
         \<lparr>g_id = ''app-icon-in-line-with-contemporary-styles'',
          g_url = ''https://docs.flathub.org/docs/for-app-authors/appdata-guidelines/quality-guidelines/#in-line-with-contemporary-styles'',
          g_needed_to_pass_since = datetime_2023_09_01, g_read_only = False\<rparr>]\<rparr>,
     \<lparr>c_id = ''app-name'', c_guidelines =
        [\<lparr>g_id = ''app-name-not-too-long'',
          g_url = ''https://docs.flathub.org/docs/for-app-authors/appdata-guidelines/quality-guidelines/#not-too-long'',
          g_needed_to_pass_since = datetime_2023_09_01, g_read_only = True\<rparr>,
         \<lparr>g_id = ''app-name-just-the-name'',
          g_url = ''https://docs.flathub.org/docs/for-app-authors/appdata-guidelines/quality-guidelines/#just-the-name'',
          g_needed_to_pass_since = datetime_2023_09_01, g_read_only = False\<rparr>,
         \<lparr>g_id = ''app-no-weird-formatting'',
          g_url = ''https://docs.flathub.org/docs/for-app-authors/appdata-guidelines/quality-guidelines/#no-weird-formatting'',
          g_needed_to_pass_since = datetime_2023_09_01, g_read_only = False\<rparr>]\<rparr>,
     \<lparr>c_id = ''app-summary'', c_guidelines =
        [\<lparr>g_id = ''app-summary-not-too-long'',
          g_url = ''https://docs.flathub.org/docs/for-app-authors/appdata-guidelines/quality-guidelines/#not-too-long-1'',
          g_needed_to_pass_since = datetime_2023_09_01, g_read_only = True\<rparr>,
         \<lparr>g_id = ''app-summary-not-technical'',
          g_url = ''https://docs.flathub.org/docs/for-app-authors/appdata-guidelines/quality-guidelines/#not-technical'',
          g_needed_to_pass_since = datetime_2023_09_01, g_read_only = False\<rparr>,
         \<lparr>g_id = ''app-summary-no-weird-formatting'',
          g_url = ''https://docs.flathub.org/docs/for-app-authors/appdata-guidelines/quality-guidelines/#no-weird-formatting-1'',
          g_needed_to_pass_since = datetime_2023_09_01, g_read_only = False\<rparr>,
         \<lparr>g_id = ''app-summary-dont-repeat-app-name'',
          g_url = ''https://docs.flathub.org/docs/for-app-authors/appdata-guidelines/quality-guidelines/#dont-repeat-the-name'',
          g_needed_to_pass_since = datetime_2023_09_01, g_read_only = False\<rparr>,
         \<lparr>g_id = ''app-summary-dont-start-with-an-article'',
          g_url = ''https://docs.flathub.org/docs/for-app-authors/appdata-guidelines/quality-guidelines/#dont-start-with-an-article'',
          g_needed_to_pass_since = datetime_2023_09_01, g_read_only = False\<rparr>]\<rparr>,
     \<lparr>c_id = ''screenshots'', c_guidelines =
        [\<lparr>g_id = ''screenshots-at-least-one-screenshot'',
          g_url = ''https://docs.flathub.org/docs/for-app-authors/appdata-guidelines/quality-guidelines/#at-least-one-screenshot'',
          g_needed_to_pass_since = datetime_2023_09_30, g_read_only = True\<rparr>,
         \<lparr>g_id = ''screenshots-tag-screenshots-with-correct-language'',
          g_url = ''https://docs.flathub.org/docs/for-app-authors/appdata-guidelines/quality-guidelines/#tag-screenshots-with-correct-language'',
          g_needed_to_pass_since = datetime_2023_09_30, g_read_only = False\<rparr>,
         \<lparr>g_id = ''screenshots-just-the-app-window'',
          g_url = ''https://docs.flathub.org/docs/for-app-authors/appdata-guidelines/quality-guidelines/#just-the-app-window'',
          g_needed_to_pass_since = datetime_2023_09_30, g_read_only = False\<rparr>,
         \<lparr>g_id = ''screenshots-take-screenshots-on-linux'',
          g_url = ''https://docs.flathub.org/docs/for-app-authors/appdata-guidelines/quality-guidelines/#take-screenshots-on-linux'',
          g_needed_to_pass_since = datetime_2023_09_30, g_read_only = False\<rparr>,
         \<lparr>g_id = ''screenshots-default-settings'',
          g_url = ''https://docs.flathub.org/docs/for-app-authors/appdata-guidelines/quality-guidelines/#default-settings'',
          g_needed_to_pass_since = datetime_2023_09_30, g_read_only = False\<rparr>,
         \<lparr>g_id = ''screenshots-include-window-shadow-and-rounded-corners'',
          g_url = ''https://docs.flathub.org/docs/for-app-authors/appdata-guidelines/quality-guidelines/#include-window-shadow-and-rounded-corners'',
          g_needed_to_pass_since = datetime_2023_09_30, g_read_only = False\<rparr>,
         \<lparr>g_id = ''screenshots-reasonable-window-size'',
          g_url = ''https://docs.flathub.org/docs/for-app-authors/appdata-guidelines/quality-guidelines/#reasonable-window-size'',
          g_needed_to_pass_since = datetime_2023_09_30, g_read_only = False\<rparr>,
         \<lparr>g_id = ''screenshots-good-content'',
          g_url = ''https://docs.flathub.org/docs/for-app-authors/appdata-guidelines/quality-guidelines/#good-content'',
          g_needed_to_pass_since = datetime_2023_09_30, g_read_only = False\<rparr>,
         \<lparr>g_id = ''screenshots-up-to-date'',
          g_url = ''https://docs.flathub.org/docs/for-app-authors/appdata-guidelines/quality-guidelines/#up-to-date'',
          g_needed_to_pass_since = datetime_2023_09_30, g_read_only = False\<rparr>]\<rparr>]"

text \<open>
  A row of the table behind \<^verbatim>\<open>models.QualityModeration\<close>, with the attributes the module
  reads (\<^verbatim>\<open>guideline_id\<close>, \<^verbatim>\<open>passed\<close>, \<^verbatim>\<open>updated_at\<close>) and those
  \<^verbatim>\<open>upsert\<close> is called with (\<^verbatim>\<open>app_id\<close>, the moderator's user id).
\<close>

record quality_moderation =
  qm_app_id :: string
  qm_guideline_id :: string
  qm_passed :: bool
  qm_updated_by :: int
  qm_updated_at :: datetime

type_synonym db = "quality_moderation list"

text \<open>The request body \<^verbatim>\<open>UpsertQualityModeration\<close>.\<close>

record upsert_quality_moderation =
  u_guideline_id :: string
  u_passed :: bool

text \<open>
  The dictionary appended to \<^verbatim>\<open>checks\<close>: \<^verbatim>\<open>passed\<close> and \<^verbatim>\<open>updated_at\<close>
  are \<^verbatim>\<open>None\<close> when no mark matches.
\<close>

record check_item =
  ck_category :: string
  ck_guideline :: string
  ck_needed_to_pass_since :: datetime
  ck_passed :: "bool option"
  ck_updated_at :: "datetime option"

text \<open>The dictionary returned by \<^verbatim>\<open>get_quality_moderation_status_for_appid\<close>.\<close>

record status =
  r_passes :: bool
  r_unrated :: nat
  r_passed :: nat
  r_not_passed :: nat
  r_last_updated :: datetime

text \<open>What a Python built-in used by the module can raise.\<close>

datatype error = ValueError

section \<open>The verdict store\<close>

text \<open>
  Modelled from the spec: \<^verbatim>\<open>models.QualityModeration.by_appid\<close> is not part of the
  module; the spec gives it as \<^verbatim>\<open>find_by_app(app_id) -> sequence of Verdict\<close>, the rows
  stored for the app. The table is the list of its rows.
\<close>

definition by_appid :: "db \<Rightarrow> string \<Rightarrow> quality_moderation list" where
  "by_appid d app_id = filter (\<lambda>row. qm_app_id row = app_id) d"

text \<open>
  Modelled from the spec: \<^verbatim>\<open>models.QualityModeration.upsert\<close> is not part of the module;
  the spec, section 4.3: if no row exists for (app id, guideline id), create one with
  \<^verbatim>\<open>updated_at\<close> the current time; if a row exists, overwrite \<^verbatim>\<open>passed\<close>, the
  moderator id and \<^verbatim>\<open>updated_at\<close> unconditionally. \<open>now\<close> is the clock reading taken by
  the write.
\<close>

fun upsert :: "datetime \<Rightarrow> db \<Rightarrow> string \<Rightarrow> string \<Rightarrow> bool \<Rightarrow> int \<Rightarrow> db" where
  "upsert now [] app_id guideline_id passed moderator_id =
     [\<lparr>qm_app_id = app_id, qm_guideline_id = guideline_id, qm_passed = passed,
       qm_updated_by = moderator_id, qm_updated_at = now\<rparr>]"
| "upsert now (row # rows) app_id guideline_id passed moderator_id =
     (if qm_app_id row = app_id \<and> qm_guideline_id row = guideline_id
      then row\<lparr>qm_passed := passed, qm_updated_by := moderator_id, qm_updated_at := now\<rparr> # rows
      else row # upsert now rows app_id guideline_id passed moderator_id)"

section \<open>The status computation\<close>

text \<open>
  The body of the inner \<^verbatim>\<open>for guideline in category.guidelines\<close> loop. The state is
  \<open>(checks, unrated, t)\<close>, with \<open>t\<close> the number of clock readings taken so far.
  \<^verbatim>\<open>next((mark for mark in marks if ...), None)\<close> is \<^const>\<open>find\<close>; a mark object is
  truthy, so \<^verbatim>\<open>x if firstMatch else None\<close> tests for \<^verbatim>\<open>None\<close>.
\<close>

fun guideline_loop ::
  "clock \<Rightarrow> quality_moderation list \<Rightarrow> string \<Rightarrow> guideline list \<Rightarrow>
   check_item list \<times> nat \<times> nat \<Rightarrow> check_item list \<times> nat \<times> nat" where
  "guideline_loop clk marks category_id [] s = s"
| "guideline_loop clk marks category_id (guideline # rest) (checks, unrated, t) =
     (if g_needed_to_pass_since guideline > clk t
      then guideline_loop clk marks category_id rest (checks, unrated, Suc t)
      else
        (let firstMatch = find (\<lambda>mark. qm_guideline_id mark = g_id guideline) marks;
             checks' = checks @
               [\<lparr>ck_category = category_id,
                 ck_guideline = g_id guideline,
                 ck_needed_to_pass_since = g_needed_to_pass_since guideline,
                 ck_passed = (case firstMatch of Some m \<Rightarrow> Some (qm_passed m) | None \<Rightarrow> None),
                 ck_updated_at =
                   (case firstMatch of Some m \<Rightarrow> Some (qm_updated_at m) | None \<Rightarrow> None)\<rparr>];
             unrated' = (if firstMatch = None then unrated + 1 else unrated)
         in guideline_loop clk marks category_id rest (checks', unrated', Suc t)))"

text \<open>The outer \<^verbatim>\<open>for category in GUIDELINES\<close> loop.\<close>

fun category_loop ::
  "clock \<Rightarrow> quality_moderation list \<Rightarrow> guideline_category list \<Rightarrow>
   check_item list \<times> nat \<times> nat \<Rightarrow> check_item list \<times> nat \<times> nat" where
  "category_loop clk marks [] s = s"
| "category_loop clk marks (category # rest) s =
     category_loop clk marks rest
       (guideline_loop clk marks (c_id category) (c_guidelines category) s)"

text \<open>
  The two list comprehensions whose lengths are \<^verbatim>\<open>passed\<close> and \<^verbatim>\<open>not_passed\<close>.
  \<^verbatim>\<open>and\<close> short-circuits: the clock is read only for an item whose left operand holds
  (\<^verbatim>\<open>item["passed"]\<close> truthy, that is \<^verbatim>\<open>True\<close>; \<^verbatim>\<open>item["passed"] is False\<close>).
  Each returns the selected items and the number of clock readings taken so far.
\<close>

fun passed_items :: "clock \<Rightarrow> check_item list \<Rightarrow> nat \<Rightarrow> check_item list \<times> nat" where
  "passed_items clk [] t = ([], t)"
| "passed_items clk (item # rest) t =
     (if ck_passed item = Some True
      then (let keep = ck_needed_to_pass_since item < clk t;
                (sel, t') = passed_items clk rest (Suc t)
            in (if keep then item # sel else sel, t'))
      else passed_items clk rest t)"

fun not_passed_items :: "clock \<Rightarrow> check_item list \<Rightarrow> nat \<Rightarrow> check_item list \<times> nat" where
  "not_passed_items clk [] t = ([], t)"
| "not_passed_items clk (item # rest) t =
     (if ck_passed item = Some False
      then (let keep = ck_needed_to_pass_since item < clk t;
                (sel, t') = not_passed_items clk rest (Suc t)
            in (if keep then item # sel else sel, t'))
      else not_passed_items clk rest t)"

text \<open>Python's \<^verbatim>\<open>max\<close> of a list: it raises \<^verbatim>\<open>ValueError\<close> on an empty one.\<close>

fun py_max :: "datetime list \<Rightarrow> error + datetime" where
  "py_max [] = Inl ValueError"
| "py_max (x # xs) = Inr (fold max xs x)"

text \<open>The local function \<^verbatim>\<open>last_updated\<close>.\<close>

definition last_updated :: "quality_moderation list \<Rightarrow> error + datetime" where
  "last_updated checks = py_max (map qm_updated_at checks @ [datetime_min])"

text \<open>
  \<^verbatim>\<open>get_quality_moderation_status_for_appid\<close>. The clock, the catalog (in the module
  the constant \<^verbatim>\<open>GUIDELINES\<close>) and the table are parameters.
\<close>

definition get_quality_moderation_status_for_appid ::
  "clock \<Rightarrow> guideline_category list \<Rightarrow> db \<Rightarrow> string \<Rightarrow> error + status" where
  "get_quality_moderation_status_for_appid clk catalog d app_id =
     (let marks = by_appid d app_id;
          (checks, unrated, t1) = category_loop clk marks catalog ([], 0, 0);
          (passed_sel, t2) = passed_items clk checks t1;
          passed = length passed_sel;
          (not_passed_sel, t3) = not_passed_items clk checks t2;
          not_passed = length not_passed_sel
      in case last_updated marks of
           Inl e \<Rightarrow> Inl e
         | Inr lu \<Rightarrow>
             Inr \<lparr>r_passes = (unrated + not_passed = 0),
                  r_unrated = unrated,
                  r_passed = passed,
                  r_not_passed = not_passed,
                  r_last_updated = lu\<rparr>)"

text \<open>The list \<^verbatim>\<open>checks\<close> as it stands when the loops are done.\<close>

definition check_list ::
  "clock \<Rightarrow> guideline_category list \<Rightarrow> db \<Rightarrow> string \<Rightarrow> check_item list" where
  "check_list clk catalog d app_id =
     fst (category_loop clk (by_appid d app_id) catalog ([], 0, 0))"

text \<open>
  The body of the route \<^verbatim>\<open>POST /quality-moderation/{app_id}\<close>,
  \<^verbatim>\<open>set_quality_moderation_for_app\<close>, which only calls \<^verbatim>\<open>upsert\<close>;
  \<open>moderator_id\<close> is \<^verbatim>\<open>moderator.user.id\<close>, \<open>d\<close> the table and \<open>now\<close> the clock
  reading of the write; the result is the table afterwards. The constraints on the path
  parameter and the \<^verbatim>\<open>quality_moderator_only\<close> dependency are applied by the web framework
  before the body runs and belong to the routing layer.
\<close>

definition set_quality_moderation_for_app ::
  "datetime \<Rightarrow> db \<Rightarrow> upsert_quality_moderation \<Rightarrow> string \<Rightarrow> int \<Rightarrow> db" where
  "set_quality_moderation_for_app now d body app_id moderator_id =
     upsert now d app_id (u_guideline_id body) (u_passed body) moderator_id"

section \<open>Closed forms of the loops\<close>

text \<open>
  The record the loop body appends for a guideline, and the guidelines that the loop does
  not skip when its first clock reading is the \<open>t\<close>-th: the loops are characterised
  through these below (\<open>guideline_loop_eq\<close>, \<open>category_loop_eq\<close>).
\<close>

definition mk_check :: "quality_moderation list \<Rightarrow> string \<Rightarrow> guideline \<Rightarrow> check_item" where
  "mk_check marks category_id guideline =
     (let firstMatch = find (\<lambda>mark. qm_guideline_id mark = g_id guideline) marks
      in \<lparr>ck_category = category_id,
          ck_guideline = g_id guideline,
          ck_needed_to_pass_since = g_needed_to_pass_since guideline,
          ck_passed = map_option qm_passed firstMatch,
          ck_updated_at = map_option qm_updated_at firstMatch\<rparr>)"

fun active_guidelines :: "clock \<Rightarrow> nat \<Rightarrow> guideline list \<Rightarrow> guideline list" where
  "active_guidelines clk t [] = []"
| "active_guidelines clk t (g # gs) =
     (if g_needed_to_pass_since g > clk t then active_guidelines clk (Suc t) gs
      else g # active_guidelines clk (Suc t) gs)"

fun active_checks ::
  "clock \<Rightarrow> quality_moderation list \<Rightarrow> nat \<Rightarrow> guideline_category list \<Rightarrow> check_item list" where
  "active_checks clk marks t [] = []"
| "active_checks clk marks t (c # cs) =
     map (mk_check marks (c_id c)) (active_guidelines clk t (c_guidelines c)) @
     active_checks clk marks (t + length (c_guidelines c)) cs"

text \<open>The number of guidelines of a catalog: the loops read the clock once for each.\<close>

definition n_guidelines :: "guideline_category list \<Rightarrow> nat" where
  "n_guidelines cat = sum_list (map (\<lambda>c. length (c_guidelines c)) cat)"

section \<open>Properties of the loops\<close>

section \<open>Example data\<close>

text \<open>
  A small catalog and table on which the theorems below are instantiated. With the clock
  at 20, \<open>G1\<close> has been active since 5, \<open>G2\<close> becomes active at this very instant and
  \<open>H\<close> is not active before 100. The table holds rows of two apps, one of them for a
  guideline id that the catalog does not have.
\<close>

definition demo_catalog :: "guideline_category list" where
  "demo_catalog =
    [\<lparr>c_id = ''general'', c_guidelines =
        [\<lparr>g_id = ''G1'', g_url = ''https://docs.example/#g1'',
          g_needed_to_pass_since = 5, g_read_only = False\<rparr>,
         \<lparr>g_id = ''G2'', g_url = ''https://docs.example/#g2'',
          g_needed_to_pass_since = 20, g_read_only = True\<rparr>]\<rparr>,
     \<lparr>c_id = ''screenshots'', c_guidelines =
        [\<lparr>g_id = ''H'', g_url = ''https://docs.example/#h'',
          g_needed_to_pass_since = 100, g_read_only = False\<rparr>]\<rparr>]"

definition demo_table :: db where
  "demo_table =
    [\<lparr>qm_app_id = ''org.gnome.Glade'', qm_guideline_id = ''G1'', qm_passed = False,
      qm_updated_by = 1, qm_updated_at = 7\<rparr>,
     \<lparr>qm_app_id = ''org.gnome.Glade'', qm_guideline_id = ''G2'', qm_passed = True,
      qm_updated_by = 1, qm_updated_at = 9\<rparr>,
     \<lparr>qm_app_id = ''org.gnome.Glade'', qm_guideline_id = ''H'', qm_passed = True,
      qm_updated_by = 1, qm_updated_at = 11\<rparr>,
     \<lparr>qm_app_id = ''org.gnome.Glade'', qm_guideline_id = ''retired'', qm_passed = False,
      qm_updated_by = 2, qm_updated_at = 12\<rparr>,
     \<lparr>qm_app_id = ''org.kde.Kate'', qm_guideline_id = ''G1'', qm_passed = True,
      qm_updated_by = 2, qm_updated_at = 15\<rparr>]"

lemma mk_check_simps [simp]:
  "ck_category (mk_check marks cid g) = cid"
  "ck_guideline (mk_check marks cid g) = g_id g"
  "ck_needed_to_pass_since (mk_check marks cid g) = g_needed_to_pass_since g"
  "ck_passed (mk_check marks cid g) = map_option qm_passed (find (\<lambda>mark. qm_guideline_id mark = g_id g) marks)"
  "ck_updated_at (mk_check marks cid g) = map_option qm_updated_at (find (\<lambda>mark. qm_guideline_id mark = g_id g) marks)"
  by (simp_all add: mk_check_def Let_def)

lemma guideline_loop_eq:
  "guideline_loop clk marks cid gs (checks, u, t) =
     (checks @ map (mk_check marks cid) (active_guidelines clk t gs),
      u + length (filter (\<lambda>c. ck_passed c = None) (map (mk_check marks cid) (active_guidelines clk t gs))),
      t + length gs)"
proof (induction gs arbitrary: checks u t)
  case Nil
  show ?case by simp
next
  case (Cons g gs)
  show ?case
  proof (cases "g_needed_to_pass_since g > clk t")
    case True
    then show ?thesis by (simp add: Cons.IH)
  next
    case False
    then show ?thesis
      by (cases "find (\<lambda>mark. qm_guideline_id mark = g_id g) marks")
         (simp_all add: Cons.IH mk_check_def Let_def)
  qed
qed

lemma category_loop_eq:
  "category_loop clk marks cat (checks, u, t) =
     (checks @ active_checks clk marks t cat,
      u + length (filter (\<lambda>c. ck_passed c = None) (active_checks clk marks t cat)),
      t + sum_list (map (\<lambda>c. length (c_guidelines c)) cat))"
proof (induction cat arbitrary: checks u t)
  case Nil
  show ?case by simp
next
  case (Cons c cs)
  show ?case
    by (simp add: guideline_loop_eq Cons.IH add.assoc)
qed

lemma passed_items_eq:
  "\<forall>k\<ge>t. clk k = now \<Longrightarrow>
   passed_items clk cs t =
     (filter (\<lambda>c. ck_passed c = Some True \<and> ck_needed_to_pass_since c < now) cs,
      t + length (filter (\<lambda>c. ck_passed c = Some True) cs))"
proof (induction cs arbitrary: t)
  case Nil
  show ?case by simp
next
  case (Cons c cs)
  have "\<forall>k\<ge>Suc t. clk k = now" using Cons.prems by simp
  then show ?case using Cons.prems Cons.IH by simp
qed

lemma not_passed_items_eq:
  "\<forall>k\<ge>t. clk k = now \<Longrightarrow>
   not_passed_items clk cs t =
     (filter (\<lambda>c. ck_passed c = Some False \<and> ck_needed_to_pass_since c < now) cs,
      t + length (filter (\<lambda>c. ck_passed c = Some False) cs))"
proof (induction cs arbitrary: t)
  case Nil
  show ?case by simp
next
  case (Cons c cs)
  have "\<forall>k\<ge>Suc t. clk k = now" using Cons.prems by simp
  then show ?case using Cons.prems Cons.IH by simp
qed

lemma py_max_eq:
  assumes "xs \<noteq> []"
  shows "py_max xs = Inr (Max (set xs))"
proof (cases xs)
  case Nil
  then show ?thesis using assms by simp
next
  case (Cons a l)
  then show ?thesis using Max.set_eq_fold [of a l] by simp
qed

lemma last_updated_eq:
  "last_updated marks = Inr (Max (insert datetime_min (qm_updated_at ` set marks)))"
  by (simp add: last_updated_def py_max_eq)

lemma check_list_eq:
  "check_list clk cat d app = active_checks clk (by_appid d app) 0 cat"
  by (simp add: check_list_def category_loop_eq)

lemma status_eq:
  "get_quality_moderation_status_for_appid clk cat d app =
     Inr \<lparr>r_passes =
            (length (filter (\<lambda>c. ck_passed c = None) (check_list clk cat d app)) +
             length (fst (not_passed_items clk (check_list clk cat d app)
                     (snd (passed_items clk (check_list clk cat d app) (n_guidelines cat))))) = 0),
          r_unrated = length (filter (\<lambda>c. ck_passed c = None) (check_list clk cat d app)),
          r_passed = length (fst (passed_items clk (check_list clk cat d app) (n_guidelines cat))),
          r_not_passed =
            length (fst (not_passed_items clk (check_list clk cat d app)
                     (snd (passed_items clk (check_list clk cat d app) (n_guidelines cat))))),
          r_last_updated = Max (insert datetime_min (qm_updated_at ` set (by_appid d app)))\<rparr>"
  by (simp add: get_quality_moderation_status_for_appid_def check_list_eq category_loop_eq
      last_updated_eq n_guidelines_def Let_def case_prod_beta)

lemma active_guidelines_none:
  "\<forall>g\<in>set gs. \<forall>k. clk k < g_needed_to_pass_since g \<Longrightarrow> active_guidelines clk t gs = []"
  by (induction gs arbitrary: t) simp_all

lemma active_checks_none:
  "\<forall>c\<in>set cat. \<forall>g\<in>set (c_guidelines c). \<forall>k. clk k < g_needed_to_pass_since g \<Longrightarrow>
   active_checks clk marks t cat = []"
  by (induction cat arbitrary: t) (simp_all add: active_guidelines_none)

lemma find_append_eq:
  "find P (xs @ ys) = (case find P xs of None \<Rightarrow> find P ys | Some x \<Rightarrow> Some x)"
  by (induction xs) simp_all

lemma set_active_guidelines: "set (active_guidelines clk t gs) \<subseteq> set gs"
  by (induction gs arbitrary: t) auto

lemma active_checks_origin:
  "c \<in> set (active_checks clk marks t cat) \<Longrightarrow>
   \<exists>cc\<in>set cat. \<exists>g\<in>set (c_guidelines cc). c = mk_check marks (c_id cc) g"
proof (induction cat arbitrary: t)
  case Nil
  then show ?case by simp
next
  case (Cons a cat)
  then show ?case using set_active_guidelines [of clk t "c_guidelines a"] by auto
qed

lemma active_guidelines_frozen:
  "active_guidelines (\<lambda>_. now) t gs = filter (\<lambda>g. \<not> g_needed_to_pass_since g > now) gs"
  by (induction gs arbitrary: t) simp_all

lemma active_checks_frozen:
  "active_checks (\<lambda>_. now) marks t cat =
     concat (map (\<lambda>c. map (mk_check marks (c_id c))
                    (filter (\<lambda>g. \<not> g_needed_to_pass_since g > now) (c_guidelines c))) cat)"
  by (induction cat arbitrary: t) (simp_all add: active_guidelines_frozen)

lemma active_checks_cong:
  "\<forall>c\<in>set cat. \<forall>g\<in>set (c_guidelines c).
      find (\<lambda>mark. qm_guideline_id mark = g_id g) marks =
      find (\<lambda>mark. qm_guideline_id mark = g_id g) marks' \<Longrightarrow>
   active_checks clk marks t cat = active_checks clk marks' t cat"
proof (induction cat arbitrary: t)
  case Nil
  show ?case by simp
next
  case (Cons a cat)
  have "map (mk_check marks (c_id a)) (active_guidelines clk t (c_guidelines a)) =
        map (mk_check marks' (c_id a)) (active_guidelines clk t (c_guidelines a))"
    using Cons.prems set_active_guidelines [of clk t "c_guidelines a"]
    by (auto simp add: mk_check_def)
  then show ?case using Cons by simp
qed

lemma ck_passed_None_iff:
  "ck_passed (mk_check (by_appid d app) cid g) = None \<longleftrightarrow>
   \<not> (\<exists>row\<in>set d. qm_app_id row = app \<and> qm_guideline_id row = g_id g)"
  by (auto simp add: find_None_iff by_appid_def)

lemma length_filter_cong_set:
  "(\<And>x. x \<in> set xs \<Longrightarrow> P x = Q x) \<Longrightarrow> length (filter P xs) = length (filter Q xs)"
  by (induction xs) simp_all

lemma set_by_appid: "set (by_appid d app) = {row \<in> set d. qm_app_id row = app}"
  by (auto simp add: by_appid_def)

lemma by_appid_Nil_iff: "by_appid d app = [] \<longleftrightarrow> (\<forall>row\<in>set d. qm_app_id row \<noteq> app)"
  by (auto simp add: by_appid_def filter_empty_conv)

lemma find_upsert:
  "find (\<lambda>row. qm_app_id row = a \<and> qm_guideline_id row = g) (upsert now d a g p m) =
     Some \<lparr>qm_app_id = a, qm_guideline_id = g, qm_passed = p,
           qm_updated_by = m, qm_updated_at = now\<rparr>"
  by (induction d) auto

lemma filter_upsert:
  "filter (\<lambda>row. \<not> (qm_app_id row = a \<and> qm_guideline_id row = g)) (upsert now d a g p m) =
   filter (\<lambda>row. \<not> (qm_app_id row = a \<and> qm_guideline_id row = g)) d"
  by (induction d) auto

lemma find_first:
  "\<forall>x\<in>set xs. \<not> P x \<Longrightarrow> P y \<Longrightarrow> find P (xs @ y # ys) = Some y"
  by (induction xs) simp_all
lemma n_guidelines_eq: "n_guidelines cat = length (concat (map c_guidelines cat))"
  by (simp add: n_guidelines_def length_concat comp_def)

lemma status_tally:
  assumes "\<forall>k\<ge>n_guidelines cat. clk k = now"
  shows "get_quality_moderation_status_for_appid clk cat d app =
     Inr \<lparr>r_passes =
            (length (filter (\<lambda>c. ck_passed c = None) (check_list clk cat d app)) +
             length (filter (\<lambda>c. ck_passed c = Some False \<and> ck_needed_to_pass_since c < now)
                       (check_list clk cat d app)) = 0),
          r_unrated = length (filter (\<lambda>c. ck_passed c = None) (check_list clk cat d app)),
          r_passed =
            length (filter (\<lambda>c. ck_passed c = Some True \<and> ck_needed_to_pass_since c < now)
                      (check_list clk cat d app)),
          r_not_passed =
            length (filter (\<lambda>c. ck_passed c = Some False \<and> ck_needed_to_pass_since c < now)
                      (check_list clk cat d app)),
          r_last_updated = Max (insert datetime_min (qm_updated_at ` set (by_appid d app)))\<rparr>"
proof -
  let ?cs = "check_list clk cat d app"
  have p: "passed_items clk ?cs (n_guidelines cat) =
     (filter (\<lambda>c. ck_passed c = Some True \<and> ck_needed_to_pass_since c < now) ?cs,
      n_guidelines cat + length (filter (\<lambda>c. ck_passed c = Some True) ?cs))"
    using assms by (rule passed_items_eq)
  have "\<forall>k\<ge>n_guidelines cat + length (filter (\<lambda>c. ck_passed c = Some True) ?cs). clk k = now"
    using assms by simp
  then have np: "not_passed_items clk ?cs
        (n_guidelines cat + length (filter (\<lambda>c. ck_passed c = Some True) ?cs)) =
     (filter (\<lambda>c. ck_passed c = Some False \<and> ck_needed_to_pass_since c < now) ?cs,
      n_guidelines cat + length (filter (\<lambda>c. ck_passed c = Some True) ?cs) +
      length (filter (\<lambda>c. ck_passed c = Some False) ?cs))"
    by (rule not_passed_items_eq)
  show ?thesis
    by (simp only: status_eq p np fst_conv snd_conv)
qed

lemma find_distinct:
  "distinct (map f xs) \<Longrightarrow> x \<in> set xs \<Longrightarrow> find (\<lambda>y. f y = f x) xs = Some x"
  by (induction xs) auto

lemma first_match_passed_iff:
  assumes "distinct (map qm_guideline_id marks)"
  shows "map_option qm_passed (find (\<lambda>mark. qm_guideline_id mark = k) marks) = Some b \<longleftrightarrow>
         (\<exists>m\<in>set marks. qm_guideline_id m = k \<and> qm_passed m = b)"
proof
  assume "map_option qm_passed (find (\<lambda>mark. qm_guideline_id mark = k) marks) = Some b"
  then obtain m where "find (\<lambda>mark. qm_guideline_id mark = k) marks = Some m" "qm_passed m = b"
    by auto
  then show "\<exists>m\<in>set marks. qm_guideline_id m = k \<and> qm_passed m = b"
    by (auto simp add: find_Some_iff)
next
  assume "\<exists>m\<in>set marks. qm_guideline_id m = k \<and> qm_passed m = b"
  then obtain m where m: "m \<in> set marks" "qm_guideline_id m = k" "qm_passed m = b" by blast
  from find_distinct [OF assms m(1)] m(2,3)
  show "map_option qm_passed (find (\<lambda>mark. qm_guideline_id mark = k) marks) = Some b"
    by simp
qed

lemma check_list_passed_iff:
  assumes "distinct (map qm_guideline_id (by_appid d app))"
    and "c \<in> set (check_list clk cat d app)"
  shows "ck_passed c = Some b \<longleftrightarrow>
         (\<exists>row\<in>set d. qm_app_id row = app \<and> qm_guideline_id row = ck_guideline c \<and>
                       qm_passed row = b)"
proof -
  from assms(2) have "c \<in> set (active_checks clk (by_appid d app) 0 cat)"
    by (simp add: check_list_eq)
  from active_checks_origin [OF this]
  obtain cc :: guideline_category and g :: guideline
    where c: "c = mk_check (by_appid d app) (c_id cc) g" by blast
  show ?thesis
    unfolding c using first_match_passed_iff [OF assms(1), of "g_id g" b]
    by (auto simp add: set_by_appid)
qed

lemma find_by_appid_remove:
  assumes "\<not> P row"
  shows "find P (by_appid (d1 @ row # d2) app) = find P (by_appid (d1 @ d2) app)"
  using assms by (simp add: by_appid_def find_append_eq split: option.splits)

lemma check_list_frozen:
  "check_list (\<lambda>_. now) cat d app =
     concat (map (\<lambda>c. map (mk_check (by_appid d app) (c_id c))
                    (filter (\<lambda>g. \<not> g_needed_to_pass_since g > now) (c_guidelines c))) cat)"
  by (simp only: check_list_eq active_checks_frozen)

lemma status_frozen:
  "get_quality_moderation_status_for_appid (\<lambda>_. now) cat d app =
     Inr \<lparr>r_passes =
            (length (filter (\<lambda>c. ck_passed c = None) (check_list (\<lambda>_. now) cat d app)) +
             length (filter (\<lambda>c. ck_passed c = Some False \<and> ck_needed_to_pass_since c < now)
                       (check_list (\<lambda>_. now) cat d app)) = 0),
          r_unrated = length (filter (\<lambda>c. ck_passed c = None) (check_list (\<lambda>_. now) cat d app)),
          r_passed =
            length (filter (\<lambda>c. ck_passed c = Some True \<and> ck_needed_to_pass_since c < now)
                      (check_list (\<lambda>_. now) cat d app)),
          r_not_passed =
            length (filter (\<lambda>c. ck_passed c = Some False \<and> ck_needed_to_pass_since c < now)
                      (check_list (\<lambda>_. now) cat d app)),
          r_last_updated = Max (insert datetime_min (qm_updated_at ` set (by_appid d app)))\<rparr>"
  by (rule status_tally) simp

lemma three_filters:
  "length (filter (\<lambda>c. p c = None) xs) +
   length (filter (\<lambda>c. p c = Some True \<and> q c) xs) +
   length (filter (\<lambda>c. p c = Some False \<and> q c) xs) =
   length (filter (\<lambda>c. p c = None \<or> q c) xs)"
proof (induction xs)
  case Nil
  show ?case by simp
next
  case (Cons x xs)
  show ?case
  proof (cases "p x")
    case None
    with Cons show ?thesis by simp
  next
    case (Some b)
    with Cons show ?thesis by (cases b) auto
  qed
qed

lemma length_filter_lt_iff:
  "length (filter P xs) < length xs \<longleftrightarrow> (\<exists>x\<in>set xs. \<not> P x)"
proof (induction xs)
  case Nil
  show ?case by simp
next
  case (Cons x xs)
  have "length (filter P xs) \<le> length xs" by (rule length_filter_le)
  with Cons show ?case by auto
qed

lemma length_check_list_frozen:
  "length (check_list (\<lambda>_. now) cat d app) =
   length (filter (\<lambda>g. \<not> g_needed_to_pass_since g > now) (concat (map c_guidelines cat)))"
  unfolding check_list_frozen by (induction cat) simp_all

lemma set_check_list_frozen:
  "set (check_list (\<lambda>_. now) cat d app) =
   {mk_check (by_appid d app) (c_id c) g | c g.
      c \<in> set cat \<and> g \<in> set (c_guidelines c) \<and> \<not> g_needed_to_pass_since g > now}"
  unfolding check_list_frozen by auto

lemma tie_iff:
  assumes "\<not> g_needed_to_pass_since g > now"
  shows "\<not> (ck_passed (mk_check (by_appid d app) cid g) = None \<or>
            ck_needed_to_pass_since (mk_check (by_appid d app) cid g) < now) \<longleftrightarrow>
         g_needed_to_pass_since g = now \<and>
         (\<exists>row\<in>set d. qm_app_id row = app \<and> qm_guideline_id row = g_id g)"
  using assms ck_passed_None_iff [of d app cid g] by auto

section \<open>The claims\<close>

text \<open>
  C1. At an evaluation instant \<open>now\<close> (every reading of the clock is \<open>now\<close>), a guideline
  whose activation time is strictly after \<open>now\<close> is skipped entirely: wherever it stands
  in the catalog, the check list and the whole report (so the counters \<^verbatim>\<open>unrated\<close>,
  \<^verbatim>\<open>passed\<close> and \<^verbatim>\<open>not-passed\<close>) are those of the catalog without it, and no entry
  of the check list has an activation time after \<open>now\<close>.
\<close>

theorem future_guideline_skipped:
  assumes future: "g_needed_to_pass_since g > now"
  shows "check_list (\<lambda>_. now)
           (cs1 @ \<lparr>c_id = cid, c_guidelines = gs1 @ g # gs2\<rparr> # cs2) d app =
         check_list (\<lambda>_. now)
           (cs1 @ \<lparr>c_id = cid, c_guidelines = gs1 @ gs2\<rparr> # cs2) d app \<and>
         get_quality_moderation_status_for_appid (\<lambda>_. now)
           (cs1 @ \<lparr>c_id = cid, c_guidelines = gs1 @ g # gs2\<rparr> # cs2) d app =
         get_quality_moderation_status_for_appid (\<lambda>_. now)
           (cs1 @ \<lparr>c_id = cid, c_guidelines = gs1 @ gs2\<rparr> # cs2) d app \<and>
         (\<forall>c\<in>set (check_list (\<lambda>_. now)
                      (cs1 @ \<lparr>c_id = cid, c_guidelines = gs1 @ g # gs2\<rparr> # cs2) d app).
            \<not> ck_needed_to_pass_since c > now)"
proof -
  have cl: "check_list (\<lambda>_. now)
           (cs1 @ \<lparr>c_id = cid, c_guidelines = gs1 @ g # gs2\<rparr> # cs2) d app =
         check_list (\<lambda>_. now)
           (cs1 @ \<lparr>c_id = cid, c_guidelines = gs1 @ gs2\<rparr> # cs2) d app"
    using future by (simp add: check_list_frozen)
  have st: "get_quality_moderation_status_for_appid (\<lambda>_. now)
           (cs1 @ \<lparr>c_id = cid, c_guidelines = gs1 @ g # gs2\<rparr> # cs2) d app =
         get_quality_moderation_status_for_appid (\<lambda>_. now)
           (cs1 @ \<lparr>c_id = cid, c_guidelines = gs1 @ gs2\<rparr> # cs2) d app"
    by (simp only: status_frozen cl)
  have "\<forall>c\<in>set (check_list (\<lambda>_. now)
                      (cs1 @ \<lparr>c_id = cid, c_guidelines = gs1 @ g # gs2\<rparr> # cs2) d app).
            \<not> ck_needed_to_pass_since c > now"
    by (auto simp add: check_list_frozen)
  with cl st show ?thesis by blast
qed

theorem future_guideline_skipped_witness:
  "map ck_guideline (check_list (\<lambda>_. 20) demo_catalog demo_table ''org.gnome.Glade'') =
     [''G1'', ''G2''] \<and>
   get_quality_moderation_status_for_appid (\<lambda>_. 20) demo_catalog demo_table ''org.gnome.Glade'' =
   get_quality_moderation_status_for_appid (\<lambda>_. 20)
     (take 1 demo_catalog @ [\<lparr>c_id = ''screenshots'', c_guidelines = []\<rparr>])
     demo_table ''org.gnome.Glade'' \<and>
   get_quality_moderation_status_for_appid (\<lambda>_. 20) demo_catalog demo_table ''org.gnome.Glade'' =
     Inr \<lparr>r_passes = False, r_unrated = 0, r_passed = 0, r_not_passed = 1,
          r_last_updated = 12\<rparr>"
proof -
  let ?h = "\<lparr>g_id = ''H'', g_url = ''https://docs.example/#h'',
          g_needed_to_pass_since = 100, g_read_only = False\<rparr>"
  have future: "g_needed_to_pass_since ?h > (20::nat)"
    by simp
  have cat: "take 1 demo_catalog @ \<lparr>c_id = ''screenshots'', c_guidelines = [] @ ?h # []\<rparr> # [] =
             demo_catalog"
    by (simp add: demo_catalog_def)
  have cl: "map ck_guideline (check_list (\<lambda>_. 20) demo_catalog demo_table ''org.gnome.Glade'') =
     [''G1'', ''G2'']"
    by (simp add: check_list_def by_appid_def demo_catalog_def demo_table_def)
  have st: "get_quality_moderation_status_for_appid (\<lambda>_. 20) demo_catalog demo_table
       ''org.gnome.Glade'' =
     Inr \<lparr>r_passes = False, r_unrated = 0, r_passed = 0, r_not_passed = 1,
          r_last_updated = 12\<rparr>"
    by (simp add: get_quality_moderation_status_for_appid_def by_appid_def demo_catalog_def
        demo_table_def last_updated_def datetime_min_def)
  from future_guideline_skipped
         [OF future, of "take 1 demo_catalog" "''screenshots''" "[]" "[]" "[]" demo_table
            "''org.gnome.Glade''"]
  have "get_quality_moderation_status_for_appid (\<lambda>_. 20) demo_catalog demo_table
          ''org.gnome.Glade'' =
        get_quality_moderation_status_for_appid (\<lambda>_. 20)
          (take 1 demo_catalog @ [\<lparr>c_id = ''screenshots'', c_guidelines = []\<rparr>])
          demo_table ''org.gnome.Glade''"
    unfolding cat by simp
  with cl st show ?thesis by simp
qed

text \<open>
  C2. For every input, \<^verbatim>\<open>passes\<close> is \<^verbatim>\<open>unrated + not_passed == 0\<close>: it holds iff
  \<^verbatim>\<open>unrated\<close> and \<^verbatim>\<open>not_passed\<close> are both zero; and when every guideline of the
  catalog activates after every reading of the clock (no active guideline), the app passes.
\<close>

theorem passes_iff_no_unrated_no_not_passed:
  "\<exists>r. get_quality_moderation_status_for_appid clk cat d app = Inr r \<and>
       r_passes r = (r_unrated r + r_not_passed r = 0) \<and>
       (r_passes r \<longleftrightarrow> r_unrated r = 0 \<and> r_not_passed r = 0) \<and>
       ((\<forall>c\<in>set cat. \<forall>g\<in>set (c_guidelines c). \<forall>k. clk k < g_needed_to_pass_since g) \<longrightarrow>
          r_passes r)"
proof -
  have "(\<forall>c\<in>set cat. \<forall>g\<in>set (c_guidelines c). \<forall>k. clk k < g_needed_to_pass_since g) \<longrightarrow>
        check_list clk cat d app = []"
    by (simp add: check_list_eq active_checks_none)
  then show ?thesis
    by (auto simp add: status_eq)
qed

theorem passes_iff_no_unrated_no_not_passed_witness:
  "\<exists>r. get_quality_moderation_status_for_appid (\<lambda>k. min k 4) demo_catalog demo_table
          ''org.gnome.Glade'' = Inr r \<and>
       r_passes r \<and> r_unrated r = 0 \<and> r_not_passed r = 0"
proof -
  have h: "\<forall>c\<in>set demo_catalog. \<forall>g\<in>set (c_guidelines c).
             \<forall>k. (\<lambda>k. min k 4) k < g_needed_to_pass_since g"
    by (simp add: demo_catalog_def min_def)
  from passes_iff_no_unrated_no_not_passed
         [of "\<lambda>k. min k 4" demo_catalog demo_table "''org.gnome.Glade''"]
  obtain r where
    "get_quality_moderation_status_for_appid (\<lambda>k. min k 4) demo_catalog demo_table
       ''org.gnome.Glade'' = Inr r"
    and "r_passes r \<longleftrightarrow> r_unrated r = 0 \<and> r_not_passed r = 0"
    and "(\<forall>c\<in>set demo_catalog. \<forall>g\<in>set (c_guidelines c).
             \<forall>k. (\<lambda>k. min k 4) k < g_needed_to_pass_since g) \<longrightarrow> r_passes r"
    by blast
  with h show ?thesis by blast
qed

text \<open>
  C3. With one row at most for each pair (app id, guideline id), a guideline of the check
  list counts as passed iff the table holds a row for it with \<^verbatim>\<open>passed\<close> true and its
  activation time is strictly before the clock reading taken at tally time; it counts as
  not passed iff the row has \<^verbatim>\<open>passed\<close> false, under the same comparison. The readings
  of the tally are those that follow the one reading per guideline of the loops; what the
  clock read while the check list was built plays no part in the comparison.
\<close>

theorem passed_not_passed_tally:
  assumes one_row: "distinct (map qm_guideline_id (by_appid d app))"
    and tally: "\<forall>k\<ge>length (concat (map c_guidelines cat)). clk k = now"
  shows "\<exists>r. get_quality_moderation_status_for_appid clk cat d app = Inr r \<and>
     r_passed r =
       length (filter (\<lambda>c. (\<exists>row\<in>set d. qm_app_id row = app \<and>
                                  qm_guideline_id row = ck_guideline c \<and> qm_passed row) \<and>
                            ck_needed_to_pass_since c < now)
                 (check_list clk cat d app)) \<and>
     r_not_passed r =
       length (filter (\<lambda>c. (\<exists>row\<in>set d. qm_app_id row = app \<and>
                                  qm_guideline_id row = ck_guideline c \<and> \<not> qm_passed row) \<and>
                            ck_needed_to_pass_since c < now)
                 (check_list clk cat d app))"
proof -
  let ?cs = "check_list clk cat d app"
  have t: "length (filter (\<lambda>c. ck_passed c = Some True \<and> ck_needed_to_pass_since c < now) ?cs) =
        length (filter (\<lambda>c. (\<exists>row\<in>set d. qm_app_id row = app \<and>
                                  qm_guideline_id row = ck_guideline c \<and> qm_passed row) \<and>
                            ck_needed_to_pass_since c < now) ?cs)"
    by (rule length_filter_cong_set) (simp add: check_list_passed_iff [OF one_row])
  have f: "length (filter (\<lambda>c. ck_passed c = Some False \<and> ck_needed_to_pass_since c < now) ?cs) =
        length (filter (\<lambda>c. (\<exists>row\<in>set d. qm_app_id row = app \<and>
                                  qm_guideline_id row = ck_guideline c \<and> \<not> qm_passed row) \<and>
                            ck_needed_to_pass_since c < now) ?cs)"
    by (rule length_filter_cong_set) (simp add: check_list_passed_iff [OF one_row])
  have tally': "\<forall>k\<ge>n_guidelines cat. clk k = now"
    using tally by (simp only: n_guidelines_eq)
  show ?thesis
    by (simp add: status_tally [OF tally'] t f)
qed

theorem passed_not_passed_tally_witness:
  "\<exists>r. get_quality_moderation_status_for_appid (\<lambda>k. if k < 3 then 20 else 50)
          demo_catalog demo_table ''org.gnome.Glade'' = Inr r \<and>
       r_passed r = 1 \<and> r_not_passed r = 1 \<and> r_unrated r = 0 \<and>
       map ck_guideline
         (check_list (\<lambda>k. if k < 3 then 20 else 50) demo_catalog demo_table ''org.gnome.Glade'') =
       [''G1'', ''G2'']"
proof -
  have one_row: "distinct (map qm_guideline_id (by_appid demo_table ''org.gnome.Glade''))"
    by (simp add: by_appid_def demo_table_def)
  have tally: "\<forall>k\<ge>length (concat (map c_guidelines demo_catalog)).
                 (\<lambda>k. if k < 3 then 20 else 50) k = (50::nat)"
    by (simp add: demo_catalog_def)
  from passed_not_passed_tally [OF one_row tally]
  show ?thesis
    by (simp add: check_list_def by_appid_def demo_catalog_def demo_table_def
        get_quality_moderation_status_for_appid_def last_updated_def)
qed

text \<open>
  C4. A guideline of the check list counts as unrated iff the table holds no row for the
  pair (app id, guideline id); no comparison with the clock is involved, whatever the clock
  reads.
\<close>

theorem unrated_counts_missing_verdicts:
  "\<exists>r. get_quality_moderation_status_for_appid clk cat d app = Inr r \<and>
       r_unrated r =
         length (filter (\<lambda>c. \<not> (\<exists>row\<in>set d. qm_app_id row = app \<and>
                                   qm_guideline_id row = ck_guideline c))
                   (check_list clk cat d app))"
proof -
  have "length (filter (\<lambda>c. ck_passed c = None) (check_list clk cat d app)) =
        length (filter (\<lambda>c. \<not> (\<exists>row\<in>set d. qm_app_id row = app \<and>
                                   qm_guideline_id row = ck_guideline c))
                   (check_list clk cat d app))"
  proof (rule length_filter_cong_set)
    fix c assume "c \<in> set (check_list clk cat d app)"
    then have "c \<in> set (active_checks clk (by_appid d app) 0 cat)"
      by (simp add: check_list_eq)
    from active_checks_origin [OF this]
    obtain cc :: guideline_category and g :: guideline
      where "c = mk_check (by_appid d app) (c_id cc) g" by blast
    then show "(ck_passed c = None) =
               (\<not> (\<exists>row\<in>set d. qm_app_id row = app \<and> qm_guideline_id row = ck_guideline c))"
      using ck_passed_None_iff [of d app "c_id cc" g] by simp
  qed
  then show ?thesis by (simp add: status_eq)
qed

theorem unrated_counts_missing_verdicts_witness:
  "\<exists>r. get_quality_moderation_status_for_appid (\<lambda>k. 20 + k) demo_catalog demo_table
          ''org.kde.Kate'' = Inr r \<and>
       r_unrated r = 1 \<and>
       map ck_guideline (check_list (\<lambda>k. 20 + k) demo_catalog demo_table ''org.kde.Kate'') =
         [''G1'', ''G2'']"
  using unrated_counts_missing_verdicts
    [of "\<lambda>k. 20 + k" demo_catalog demo_table "''org.kde.Kate''"]
  by (simp add: check_list_def by_appid_def demo_catalog_def demo_table_def)

text \<open>
  C5. \<^verbatim>\<open>last-updated\<close> is the greatest \<^verbatim>\<open>updated_at\<close> among all the rows stored for
  the app, whatever the catalog and the clock (so rows of guidelines that are not active
  yet, or not in the catalog, take part); with no row for the app it is
  \<^verbatim>\<open>datetime.min\<close>, and a report is returned in both cases.
\<close>

theorem last_updated_is_max_over_all_verdicts:
  "\<exists>r. get_quality_moderation_status_for_appid clk cat d app = Inr r \<and>
       r_last_updated r =
         (if \<forall>row\<in>set d. qm_app_id row \<noteq> app then datetime_min
          else Max (qm_updated_at ` {row \<in> set d. qm_app_id row = app}))"
proof (cases "\<forall>row\<in>set d. qm_app_id row \<noteq> app")
  case True
  then have "by_appid d app = []" by (simp add: by_appid_Nil_iff)
  then show ?thesis using True by (simp add: status_eq)
next
  case False
  let ?S = "qm_updated_at ` {row \<in> set d. qm_app_id row = app}"
  have fin: "finite ?S" by simp
  have ne: "?S \<noteq> {}" using False by auto
  have "Max (insert datetime_min ?S) = max datetime_min (Max ?S)"
    using fin ne by (rule Max_insert)
  then have "Max (insert datetime_min ?S) = Max ?S"
    by (simp add: datetime_min_def)
  then show ?thesis using False by (auto simp add: status_eq set_by_appid)
qed

theorem last_updated_is_max_over_all_verdicts_witness:
  "(\<exists>r. get_quality_moderation_status_for_appid (\<lambda>k. 20) demo_catalog demo_table
          ''org.gnome.Glade'' = Inr r \<and> r_last_updated r = 12) \<and>
   (\<exists>r. get_quality_moderation_status_for_appid (\<lambda>k. 20) demo_catalog demo_table
          ''org.unknown.App'' = Inr r \<and> r_last_updated r = datetime_min)"
proof -
  have rows: "by_appid demo_table ''org.gnome.Glade'' = take 4 demo_table"
    by (simp add: by_appid_def demo_table_def)
  have "Max (qm_updated_at ` set (by_appid demo_table ''org.gnome.Glade'')) = 12"
    unfolding rows by (simp add: demo_table_def)
  then have mx: "Max (qm_updated_at ` {row \<in> set demo_table. qm_app_id row = ''org.gnome.Glade''}) = 12"
    by (simp only: set_by_appid)
  have some: "\<not> (\<forall>row\<in>set demo_table. qm_app_id row \<noteq> ''org.gnome.Glade'')"
    by (simp add: demo_table_def)
  have none: "\<forall>row\<in>set demo_table. qm_app_id row \<noteq> ''org.unknown.App''"
    by (simp add: demo_table_def)
  from last_updated_is_max_over_all_verdicts
         [of "\<lambda>k. 20" demo_catalog demo_table "''org.gnome.Glade''"]
  obtain r1 where r1:
    "get_quality_moderation_status_for_appid (\<lambda>k. 20) demo_catalog demo_table
       ''org.gnome.Glade'' = Inr r1"
    "r_last_updated r1 =
       (if \<forall>row\<in>set demo_table. qm_app_id row \<noteq> ''org.gnome.Glade'' then datetime_min
        else Max (qm_updated_at ` {row \<in> set demo_table. qm_app_id row = ''org.gnome.Glade''}))"
    by blast
  from last_updated_is_max_over_all_verdicts
         [of "\<lambda>k. 20" demo_catalog demo_table "''org.unknown.App''"]
  obtain r2 where r2:
    "get_quality_moderation_status_for_appid (\<lambda>k. 20) demo_catalog demo_table
       ''org.unknown.App'' = Inr r2"
    "r_last_updated r2 =
       (if \<forall>row\<in>set demo_table. qm_app_id row \<noteq> ''org.unknown.App'' then datetime_min
        else Max (qm_updated_at ` {row \<in> set demo_table. qm_app_id row = ''org.unknown.App''}))"
    by blast
  have "r_last_updated r1 = 12"
    unfolding r1(2) by (simp only: if_not_P [OF some] mx)
  moreover have "r_last_updated r2 = datetime_min"
    unfolding r2(2) using none by (rule if_P)
  ultimately show ?thesis using r1(1) r2(1) by blast
qed

text \<open>
  C6. At an evaluation instant \<open>now\<close>, \<^verbatim>\<open>unrated + passed + not_passed\<close> is at most the
  number of active guidelines (those whose activation time is not strictly after \<open>now\<close>),
  and it is smaller exactly when some guideline of the catalog has activation time \<open>now\<close>
  and a row for (app id, guideline id) exists.
\<close>

theorem counters_bounded_by_active:
  "\<exists>r. get_quality_moderation_status_for_appid (\<lambda>_. now) cat d app = Inr r \<and>
       r_unrated r + r_passed r + r_not_passed r \<le>
         length (filter (\<lambda>g. \<not> g_needed_to_pass_since g > now) (concat (map c_guidelines cat))) \<and>
       (r_unrated r + r_passed r + r_not_passed r <
          length (filter (\<lambda>g. \<not> g_needed_to_pass_since g > now) (concat (map c_guidelines cat)))
        \<longleftrightarrow>
        (\<exists>g\<in>set (concat (map c_guidelines cat)).
           g_needed_to_pass_since g = now \<and>
           (\<exists>row\<in>set d. qm_app_id row = app \<and> qm_guideline_id row = g_id g)))"
proof -
  let ?cs = "check_list (\<lambda>_. now) cat d app"
  let ?n = "length (filter (\<lambda>g. \<not> g_needed_to_pass_since g > now) (concat (map c_guidelines cat)))"
  let ?sum = "length (filter (\<lambda>c. ck_passed c = None) ?cs) +
     length (filter (\<lambda>c. ck_passed c = Some True \<and> ck_needed_to_pass_since c < now) ?cs) +
     length (filter (\<lambda>c. ck_passed c = Some False \<and> ck_needed_to_pass_since c < now) ?cs)"
  have sum: "?sum = length (filter (\<lambda>c. ck_passed c = None \<or> ck_needed_to_pass_since c < now) ?cs)"
    by (rule three_filters)
  have len: "length ?cs = ?n"
    by (rule length_check_list_frozen)
  have le: "?sum \<le> ?n"
    unfolding sum len [symmetric] by (rule length_filter_le)
  have "?sum < ?n \<longleftrightarrow>
        (\<exists>c\<in>set ?cs. \<not> (ck_passed c = None \<or> ck_needed_to_pass_since c < now))"
    unfolding sum len [symmetric] by (rule length_filter_lt_iff)
  also have "\<dots> \<longleftrightarrow>
        (\<exists>c\<in>set cat. \<exists>g\<in>set (c_guidelines c).
           g_needed_to_pass_since g = now \<and>
           (\<exists>row\<in>set d. qm_app_id row = app \<and> qm_guideline_id row = g_id g))"
  proof
    assume "\<exists>c\<in>set ?cs. \<not> (ck_passed c = None \<or> ck_needed_to_pass_since c < now)"
    then obtain cc :: guideline_category and g :: guideline
      where "cc \<in> set cat" "g \<in> set (c_guidelines cc)" "\<not> g_needed_to_pass_since g > now"
        "\<not> (ck_passed (mk_check (by_appid d app) (c_id cc) g) = None \<or>
            ck_needed_to_pass_since (mk_check (by_appid d app) (c_id cc) g) < now)"
      unfolding set_check_list_frozen by blast
    then show "\<exists>c\<in>set cat. \<exists>g\<in>set (c_guidelines c).
           g_needed_to_pass_since g = now \<and>
           (\<exists>row\<in>set d. qm_app_id row = app \<and> qm_guideline_id row = g_id g)"
      using tie_iff [where g = g and now = now and d = d and app = app and cid = "c_id cc"]
      by blast
  next
    assume "\<exists>c\<in>set cat. \<exists>g\<in>set (c_guidelines c).
           g_needed_to_pass_since g = now \<and>
           (\<exists>row\<in>set d. qm_app_id row = app \<and> qm_guideline_id row = g_id g)"
    then obtain cc :: guideline_category and g :: guideline
      where g: "cc \<in> set cat" "g \<in> set (c_guidelines cc)" "g_needed_to_pass_since g = now"
        "\<exists>row\<in>set d. qm_app_id row = app \<and> qm_guideline_id row = g_id g"
      by blast
    then have act: "\<not> g_needed_to_pass_since g > now" by simp
    then have "mk_check (by_appid d app) (c_id cc) g \<in> set ?cs"
      unfolding set_check_list_frozen using g(1,2) by blast
    moreover have "\<not> (ck_passed (mk_check (by_appid d app) (c_id cc) g) = None \<or>
            ck_needed_to_pass_since (mk_check (by_appid d app) (c_id cc) g) < now)"
      using tie_iff [OF act, where d = d and app = app and cid = "c_id cc"] g(3,4) by blast
    ultimately show "\<exists>c\<in>set ?cs. \<not> (ck_passed c = None \<or> ck_needed_to_pass_since c < now)"
      by blast
  qed
  also have "\<dots> \<longleftrightarrow>
        (\<exists>g\<in>set (concat (map c_guidelines cat)).
           g_needed_to_pass_since g = now \<and>
           (\<exists>row\<in>set d. qm_app_id row = app \<and> qm_guideline_id row = g_id g))"
    by auto
  finally have lt: "?sum < ?n \<longleftrightarrow>
        (\<exists>g\<in>set (concat (map c_guidelines cat)).
           g_needed_to_pass_since g = now \<and>
           (\<exists>row\<in>set d. qm_app_id row = app \<and> qm_guideline_id row = g_id g))" .
  show ?thesis
    unfolding status_frozen using le lt by simp
qed

theorem counters_bounded_by_active_witness:
  "(\<exists>r. get_quality_moderation_status_for_appid (\<lambda>_. 20) demo_catalog demo_table
          ''org.gnome.Glade'' = Inr r \<and>
        r_unrated r + r_passed r + r_not_passed r = 1 \<and>
        length (filter (\<lambda>g. \<not> g_needed_to_pass_since g > 20)
                  (concat (map c_guidelines demo_catalog))) = 2) \<and>
   (\<exists>r. get_quality_moderation_status_for_appid (\<lambda>_. 21) demo_catalog demo_table
          ''org.gnome.Glade'' = Inr r \<and>
        r_unrated r + r_passed r + r_not_passed r = 2 \<and>
        length (filter (\<lambda>g. \<not> g_needed_to_pass_since g > 21)
                  (concat (map c_guidelines demo_catalog))) = 2)"
proof -
  have n20: "length (filter (\<lambda>g. \<not> g_needed_to_pass_since g > 20)
                  (concat (map c_guidelines demo_catalog))) = 2"
    by (simp add: demo_catalog_def)
  have n21: "length (filter (\<lambda>g. \<not> g_needed_to_pass_since g > 21)
                  (concat (map c_guidelines demo_catalog))) = 2"
    by (simp add: demo_catalog_def)
  have tie: "\<exists>g\<in>set (concat (map c_guidelines demo_catalog)).
           g_needed_to_pass_since g = 20 \<and>
           (\<exists>row\<in>set demo_table. qm_app_id row = ''org.gnome.Glade'' \<and>
                                 qm_guideline_id row = g_id g)"
    by (simp add: demo_catalog_def demo_table_def)
  have no_tie: "\<not> (\<exists>g\<in>set (concat (map c_guidelines demo_catalog)).
           g_needed_to_pass_since g = 21 \<and>
           (\<exists>row\<in>set demo_table. qm_app_id row = ''org.gnome.Glade'' \<and>
                                 qm_guideline_id row = g_id g))"
    by (simp add: demo_catalog_def)
  from counters_bounded_by_active [of 20 demo_catalog demo_table "''org.gnome.Glade''"]
  obtain r where r:
    "get_quality_moderation_status_for_appid (\<lambda>_. 20) demo_catalog demo_table
       ''org.gnome.Glade'' = Inr r"
    "r_unrated r + r_passed r + r_not_passed r < 2"
    unfolding n20 using tie by blast
  from counters_bounded_by_active [of 21 demo_catalog demo_table "''org.gnome.Glade''"]
  obtain r' where r':
    "get_quality_moderation_status_for_appid (\<lambda>_. 21) demo_catalog demo_table
       ''org.gnome.Glade'' = Inr r'"
    "r_unrated r' + r_passed r' + r_not_passed r' \<le> 2"
    "\<not> r_unrated r' + r_passed r' + r_not_passed r' < 2"
    unfolding n21 using no_tie by blast
  have "r_not_passed r = 1"
    using r(1)
    by (auto simp add: get_quality_moderation_status_for_appid_def by_appid_def demo_catalog_def
        demo_table_def last_updated_def datetime_min_def)
  with r(2) have "r_unrated r + r_passed r + r_not_passed r = 1" by simp
  moreover from r'(2,3) have "r_unrated r' + r_passed r' + r_not_passed r' = 2" by simp
  ultimately show ?thesis using r(1) r'(1) n20 n21 by blast
qed

text \<open>
  C7. The status computation returns a report for every clock, catalog, table and app id;
  it never raises. For an app id that no row of the table has, the report is the one
  computed from the empty table. (An empty table, rows of guideline ids that the catalog
  lacks and a catalog without active guideline are instances.)
\<close>

theorem status_never_raises:
  "(\<exists>r. get_quality_moderation_status_for_appid clk cat d app = Inr r) \<and>
   ((\<forall>row\<in>set d. qm_app_id row \<noteq> app) \<longrightarrow>
      get_quality_moderation_status_for_appid clk cat d app =
      get_quality_moderation_status_for_appid clk cat [] app)"
proof -
  have "(\<forall>row\<in>set d. qm_app_id row \<noteq> app) \<longrightarrow> by_appid d app = by_appid [] app"
    using by_appid_Nil_iff [of d app] by (auto simp add: by_appid_def)
  then show ?thesis
    by (auto simp add: status_eq check_list_eq)
qed

theorem status_never_raises_witness:
  "get_quality_moderation_status_for_appid (\<lambda>k. 20 + k) demo_catalog demo_table
     ''org.unknown.App'' =
   get_quality_moderation_status_for_appid (\<lambda>k. 20 + k) demo_catalog [] ''org.unknown.App'' \<and>
   get_quality_moderation_status_for_appid (\<lambda>k. 20 + k) demo_catalog [] ''org.unknown.App'' =
     Inr \<lparr>r_passes = False, r_unrated = 2, r_passed = 0, r_not_passed = 0,
          r_last_updated = datetime_min\<rparr>"
proof -
  have h: "\<forall>row\<in>set demo_table. qm_app_id row \<noteq> ''org.unknown.App''"
    by (simp add: demo_table_def)
  have "get_quality_moderation_status_for_appid (\<lambda>k. 20 + k) demo_catalog [] ''org.unknown.App'' =
     Inr \<lparr>r_passes = False, r_unrated = 2, r_passed = 0, r_not_passed = 0,
          r_last_updated = datetime_min\<rparr>"
    by (simp add: get_quality_moderation_status_for_appid_def by_appid_def demo_catalog_def
        last_updated_def)
  with h status_never_raises [of "\<lambda>k. 20 + k" demo_catalog demo_table "''org.unknown.App''"]
  show ?thesis by blast
qed

text \<open>
  C8. A row whose guideline id no guideline of the catalog has is ignored by the
  aggregation: with the row taken out of the table, the check list and the fields
  \<^verbatim>\<open>unrated\<close>, \<^verbatim>\<open>passed\<close>, \<^verbatim>\<open>not-passed\<close> and \<^verbatim>\<open>passes\<close> of the report are
  the same, for every clock.
\<close>

theorem verdict_outside_catalog_ignored:
  assumes absent: "\<forall>c\<in>set cat. \<forall>g\<in>set (c_guidelines c). g_id g \<noteq> qm_guideline_id row"
  shows "check_list clk cat (d1 @ row # d2) app = check_list clk cat (d1 @ d2) app \<and>
         (\<exists>r r'. get_quality_moderation_status_for_appid clk cat (d1 @ row # d2) app = Inr r \<and>
                 get_quality_moderation_status_for_appid clk cat (d1 @ d2) app = Inr r' \<and>
                 r_unrated r = r_unrated r' \<and> r_passed r = r_passed r' \<and>
                 r_not_passed r = r_not_passed r' \<and> r_passes r = r_passes r')"
proof -
  have "\<forall>c\<in>set cat. \<forall>g\<in>set (c_guidelines c).
      find (\<lambda>mark. qm_guideline_id mark = g_id g) (by_appid (d1 @ row # d2) app) =
      find (\<lambda>mark. qm_guideline_id mark = g_id g) (by_appid (d1 @ d2) app)"
  proof (intro ballI)
    fix c :: guideline_category and g :: guideline
    assume "c \<in> set cat" "g \<in> set (c_guidelines c)"
    with absent have "\<not> qm_guideline_id row = g_id g" by metis
    then show "find (\<lambda>mark. qm_guideline_id mark = g_id g) (by_appid (d1 @ row # d2) app) =
      find (\<lambda>mark. qm_guideline_id mark = g_id g) (by_appid (d1 @ d2) app)"
      by (rule find_by_appid_remove)
  qed
  then have "active_checks clk (by_appid (d1 @ row # d2) app) 0 cat =
             active_checks clk (by_appid (d1 @ d2) app) 0 cat"
    by (rule active_checks_cong)
  then have cl: "check_list clk cat (d1 @ row # d2) app = check_list clk cat (d1 @ d2) app"
    by (simp only: check_list_eq)
  show ?thesis
    by (simp add: status_eq cl)
qed

theorem verdict_outside_catalog_ignored_witness:
  "check_list (\<lambda>k. 20 + k) demo_catalog demo_table ''org.gnome.Glade'' =
   check_list (\<lambda>k. 20 + k) demo_catalog
     (take 3 demo_table @ drop 4 demo_table) ''org.gnome.Glade'' \<and>
   (\<exists>r r'. get_quality_moderation_status_for_appid (\<lambda>k. 20 + k) demo_catalog demo_table
             ''org.gnome.Glade'' = Inr r \<and>
           get_quality_moderation_status_for_appid (\<lambda>k. 20 + k) demo_catalog
             (take 3 demo_table @ drop 4 demo_table) ''org.gnome.Glade'' = Inr r' \<and>
           r_unrated r = r_unrated r' \<and> r_passed r = r_passed r' \<and>
           r_not_passed r = r_not_passed r' \<and> r_passes r = r_passes r' \<and>
           r_last_updated r = 12 \<and> r_last_updated r' = 11)"
proof -
  let ?row = "\<lparr>qm_app_id = ''org.gnome.Glade'', qm_guideline_id = ''retired'', qm_passed = False,
      qm_updated_by = 2, qm_updated_at = 12\<rparr>"
  have absent: "\<forall>c\<in>set demo_catalog. \<forall>g\<in>set (c_guidelines c). g_id g \<noteq> qm_guideline_id ?row"
    by (simp add: demo_catalog_def)
  have tbl: "take 3 demo_table @ ?row # drop 4 demo_table = demo_table"
    by (simp add: demo_table_def)
  have lu: "\<forall>r. get_quality_moderation_status_for_appid (\<lambda>k. 20 + k) demo_catalog demo_table
             ''org.gnome.Glade'' = Inr r \<longrightarrow> r_last_updated r = 12"
    by (simp add: get_quality_moderation_status_for_appid_def by_appid_def demo_catalog_def
        demo_table_def last_updated_def datetime_min_def)
  have lu': "\<forall>r. get_quality_moderation_status_for_appid (\<lambda>k. 20 + k) demo_catalog
             (take 3 demo_table @ drop 4 demo_table) ''org.gnome.Glade'' = Inr r \<longrightarrow>
             r_last_updated r = 11"
    by (simp add: get_quality_moderation_status_for_appid_def by_appid_def demo_catalog_def
        demo_table_def last_updated_def datetime_min_def)
  from verdict_outside_catalog_ignored
         [OF absent, of "\<lambda>k. 20 + k" "take 3 demo_table" "drop 4 demo_table" "''org.gnome.Glade''"]
  show ?thesis
    unfolding tbl using lu lu' by blast
qed

text \<open>
  C9. The route that records a verdict hands its arguments to \<^verbatim>\<open>upsert\<close> without
  consulting the catalog: for every table, app id, guideline id, verdict and moderator,
  the table afterwards holds for the pair (app id, guideline id) the row just written, and
  the rows of the other pairs are as before. Neither the \<^verbatim>\<open>read_only\<close> flag nor the
  presence of the guideline id in the catalog plays a part.
\<close>

theorem upsert_accepts_any_guideline:
  "find (\<lambda>row. qm_app_id row = app \<and> qm_guideline_id row = guideline_id)
        (set_quality_moderation_for_app now d
           \<lparr>u_guideline_id = guideline_id, u_passed = passed\<rparr> app moderator_id) =
     Some \<lparr>qm_app_id = app, qm_guideline_id = guideline_id, qm_passed = passed,
           qm_updated_by = moderator_id, qm_updated_at = now\<rparr> \<and>
   filter (\<lambda>row. \<not> (qm_app_id row = app \<and> qm_guideline_id row = guideline_id))
        (set_quality_moderation_for_app now d
           \<lparr>u_guideline_id = guideline_id, u_passed = passed\<rparr> app moderator_id) =
   filter (\<lambda>row. \<not> (qm_app_id row = app \<and> qm_guideline_id row = guideline_id)) d"
  unfolding set_quality_moderation_for_app_def upsert_quality_moderation.simps
  by (intro conjI find_upsert filter_upsert)

theorem upsert_accepts_any_guideline_witness:
  "(\<exists>g\<in>set (concat (map c_guidelines GUIDELINES)).
      g_id g = ''app-name-not-too-long'' \<and> g_read_only g) \<and>
   find (\<lambda>row. qm_app_id row = ''org.gnome.Glade'' \<and>
               qm_guideline_id row = ''app-name-not-too-long'')
        (set_quality_moderation_for_app 30 demo_table
           \<lparr>u_guideline_id = ''app-name-not-too-long'', u_passed = True\<rparr>
           ''org.gnome.Glade'' 3) =
     Some \<lparr>qm_app_id = ''org.gnome.Glade'', qm_guideline_id = ''app-name-not-too-long'',
           qm_passed = True, qm_updated_by = 3, qm_updated_at = 30\<rparr> \<and>
   ''no-such-guideline'' \<notin> g_id ` set (concat (map c_guidelines GUIDELINES)) \<and>
   find (\<lambda>row. qm_app_id row = ''org.gnome.Glade'' \<and>
               qm_guideline_id row = ''no-such-guideline'')
        (set_quality_moderation_for_app 30 demo_table
           \<lparr>u_guideline_id = ''no-such-guideline'', u_passed = False\<rparr>
           ''org.gnome.Glade'' 3) =
     Some \<lparr>qm_app_id = ''org.gnome.Glade'', qm_guideline_id = ''no-such-guideline'',
           qm_passed = False, qm_updated_by = 3, qm_updated_at = 30\<rparr>"
proof -
  have "\<exists>g\<in>set (concat (map c_guidelines GUIDELINES)).
      g_id g = ''app-name-not-too-long'' \<and> g_read_only g"
    by (simp add: GUIDELINES_def)
  moreover have "''no-such-guideline'' \<notin> g_id ` set (concat (map c_guidelines GUIDELINES))"
    by (simp add: GUIDELINES_def)
  ultimately show ?thesis
    using upsert_accepts_any_guideline
            [of "''org.gnome.Glade''" "''app-name-not-too-long''" 30 demo_table True 3]
          upsert_accepts_any_guideline
            [of "''org.gnome.Glade''" "''no-such-guideline''" 30 demo_table False 3]
    by blast
qed

text \<open>
  C10. When the rows read for the app hold several rows of one guideline id, the check
  record of that guideline takes \<^verbatim>\<open>passed\<close> and \<^verbatim>\<open>updated_at\<close> from the first of
  them in list order, whatever follows it; and \<^verbatim>\<open>last-updated\<close> is the greatest
  \<^verbatim>\<open>updated_at\<close> of all the rows read, so it is at least that of every row, the
  later duplicates included.
\<close>

theorem first_matching_verdict_used:
  assumes split: "by_appid d app = ms1 @ m # ms2"
    and first: "\<forall>m'\<in>set ms1. qm_guideline_id m' \<noteq> qm_guideline_id m"
  shows "(\<forall>c\<in>set (check_list clk cat d app).
            ck_guideline c = qm_guideline_id m \<longrightarrow>
            ck_passed c = Some (qm_passed m) \<and> ck_updated_at c = Some (qm_updated_at m)) \<and>
         (\<exists>r. get_quality_moderation_status_for_appid clk cat d app = Inr r \<and>
              r_last_updated r = Max (qm_updated_at ` set (ms1 @ m # ms2)) \<and>
              (\<forall>m'\<in>set (ms1 @ m # ms2). qm_updated_at m' \<le> r_last_updated r))"
proof -
  have fnd: "find (\<lambda>mark. qm_guideline_id mark = qm_guideline_id m) (by_appid d app) = Some m"
    unfolding split using first by (intro find_first) simp_all
  have part1: "\<forall>c\<in>set (check_list clk cat d app).
            ck_guideline c = qm_guideline_id m \<longrightarrow>
            ck_passed c = Some (qm_passed m) \<and> ck_updated_at c = Some (qm_updated_at m)"
  proof (intro ballI impI)
    fix c assume "c \<in> set (check_list clk cat d app)" and g: "ck_guideline c = qm_guideline_id m"
    then have "c \<in> set (active_checks clk (by_appid d app) 0 cat)"
      by (simp add: check_list_eq)
    from active_checks_origin [OF this]
    obtain cc :: guideline_category and g :: guideline
      where c: "c = mk_check (by_appid d app) (c_id cc) g" by blast
    with g have "g_id g = qm_guideline_id m" by simp
    then show "ck_passed c = Some (qm_passed m) \<and> ck_updated_at c = Some (qm_updated_at m)"
      using fnd c by simp
  qed
  let ?S = "qm_updated_at ` set (ms1 @ m # ms2)"
  have "Max (insert datetime_min ?S) = max datetime_min (Max ?S)"
    by (rule Max_insert) simp_all
  then have mx: "Max (insert datetime_min ?S) = Max ?S"
    by (simp add: datetime_min_def)
  have "\<forall>m'\<in>set (ms1 @ m # ms2). qm_updated_at m' \<le> Max ?S"
    by (intro ballI Max_ge) auto
  then show ?thesis using part1 mx by (simp add: status_eq split)
qed

theorem first_matching_verdict_used_witness:
  "map (\<lambda>c. (ck_guideline c, ck_passed c, ck_updated_at c))
     (check_list (\<lambda>k. 20 + k) demo_catalog
        (demo_table @
         [\<lparr>qm_app_id = ''org.gnome.Glade'', qm_guideline_id = ''G1'', qm_passed = True,
           qm_updated_by = 3, qm_updated_at = 30\<rparr>])
        ''org.gnome.Glade'') =
     [(''G1'', Some False, Some 7), (''G2'', Some True, Some 9)] \<and>
   (\<exists>r. get_quality_moderation_status_for_appid (\<lambda>k. 20 + k) demo_catalog
          (demo_table @
           [\<lparr>qm_app_id = ''org.gnome.Glade'', qm_guideline_id = ''G1'', qm_passed = True,
             qm_updated_by = 3, qm_updated_at = 30\<rparr>])
          ''org.gnome.Glade'' = Inr r \<and>
        r_last_updated r = 30)"
proof -
  let ?dup = "\<lparr>qm_app_id = ''org.gnome.Glade'', qm_guideline_id = ''G1'', qm_passed = True,
           qm_updated_by = 3, qm_updated_at = 30\<rparr>"
  let ?m = "\<lparr>qm_app_id = ''org.gnome.Glade'', qm_guideline_id = ''G1'', qm_passed = False,
           qm_updated_by = 1, qm_updated_at = 7\<rparr>"
  let ?ms2 = "tl (take 4 demo_table) @ [?dup]"
  have split: "by_appid (demo_table @ [?dup]) ''org.gnome.Glade'' = [] @ ?m # ?ms2"
    by (simp add: by_appid_def demo_table_def)
  have first: "\<forall>m'\<in>set []. qm_guideline_id m' \<noteq> qm_guideline_id ?m"
    by simp
  have mx: "Max (qm_updated_at ` set ([] @ ?m # ?ms2)) = 30"
    by (simp add: demo_table_def)
  have cl: "map (\<lambda>c. (ck_guideline c, ck_passed c, ck_updated_at c))
     (check_list (\<lambda>k. 20 + k) demo_catalog (demo_table @ [?dup]) ''org.gnome.Glade'') =
     [(''G1'', Some False, Some 7), (''G2'', Some True, Some 9)]"
    by (simp add: check_list_def by_appid_def demo_catalog_def demo_table_def)
  from first_matching_verdict_used [OF split first, of "\<lambda>k. 20 + k" demo_catalog] mx cl
  show ?thesis by auto
qed

end
